theory Spec2Isabelle
  imports Main "HOL-Library.Sublist"
begin

section \<open>The Sphinx configuration module \<open>docs/conf.py\<close>\<close>

text \<open>
  The module is a sequence of top-level statements: assignments of literal expressions to
  names, followed by one function definition. Executing the file runs the statements in
  order against a namespace (the module's globals); the documentation tool then reads the
  namespace and calls \<open>setup(app)\<close>.
\<close>

subsection \<open>Values\<close>

text \<open>
  The Python objects that occur in the file: strings, integers, booleans, \<open>None\<close>,
  lists, tuples, dictionaries and the function object bound by \<open>def\<close>. Every dictionary
  of the file has string keys; a dictionary is kept as an association list in insertion
  order, as Python keeps it.
\<close>

datatype pyval =
    PStr string
  | PInt int
  | PBool bool
  | PNone
  | PList "pyval list"
  | PTuple "pyval list"
  | PDict "(string \<times> pyval) list"
  | PFunction string

text \<open>
  Errors a statement of the module or the body of \<open>setup\<close> can end in: a read of an
  unbound name, a lookup of an attribute the object does not have, a call of an object that
  is not callable, and an exception raised inside a method of the app object, which passes
  through \<open>setup\<close> unchanged.
\<close>

datatype error =
    NameError string
  | AttributeError string
  | TypeError string
  | Propagated string

type_synonym namespace = "string \<rightharpoonup> pyval"

subsection \<open>Expressions\<close>

text \<open>
  The expression forms of the file (string, number and keyword constants, list, tuple and
  dictionary displays) and the read of a name, which is the one form that can raise.
\<close>

datatype expr =
    EStr string
  | ENum int
  | ETrue
  | EFalse
  | ENone
  | EName string
  | EList "expr list"
  | ETuple "expr list"
  | EDict "(string \<times> expr) list"

text \<open>\<open>d[k] = v\<close>: an existing key keeps its position and takes the new value, a new key
  goes to the end.\<close>

fun dict_set :: "(string \<times> pyval) list \<Rightarrow> string \<Rightarrow> pyval \<Rightarrow> (string \<times> pyval) list" where
  "dict_set [] k v = [(k, v)]"
| "dict_set ((k', v') # d) k v =
     (if k' = k then (k, v) # d else (k', v') # dict_set d k v)"

text \<open>Evaluation goes left to right and stops at the first error.\<close>

fun eval :: "namespace \<Rightarrow> expr \<Rightarrow> error + pyval"
  and eval_list :: "namespace \<Rightarrow> expr list \<Rightarrow> error + pyval list"
  and eval_items :: "namespace \<Rightarrow> (string \<times> expr) list \<Rightarrow> (string \<times> pyval) list
                       \<Rightarrow> error + (string \<times> pyval) list"
where
  "eval ns (EStr s) = Inr (PStr s)"
| "eval ns (ENum n) = Inr (PInt n)"
| "eval ns ETrue = Inr (PBool True)"
| "eval ns EFalse = Inr (PBool False)"
| "eval ns ENone = Inr PNone"
| "eval ns (EName x) = (case ns x of None \<Rightarrow> Inl (NameError x) | Some v \<Rightarrow> Inr v)"
| "eval ns (EList es) =
     (case eval_list ns es of Inl err \<Rightarrow> Inl err | Inr vs \<Rightarrow> Inr (PList vs))"
| "eval ns (ETuple es) =
     (case eval_list ns es of Inl err \<Rightarrow> Inl err | Inr vs \<Rightarrow> Inr (PTuple vs))"
| "eval ns (EDict kes) =
     (case eval_items ns kes [] of Inl err \<Rightarrow> Inl err | Inr d \<Rightarrow> Inr (PDict d))"
| "eval_list ns [] = Inr []"
| "eval_list ns (e # es) =
     (case eval ns e of
        Inl err \<Rightarrow> Inl err
      | Inr v \<Rightarrow> (case eval_list ns es of Inl err \<Rightarrow> Inl err | Inr vs \<Rightarrow> Inr (v # vs)))"
| "eval_items ns [] d = Inr d"
| "eval_items ns ((k, e) # kes) d =
     (case eval ns e of
        Inl err \<Rightarrow> Inl err
      | Inr v \<Rightarrow> eval_items ns kes (dict_set d k v))"

subsection \<open>Statements and module execution\<close>

datatype stmt =
    Assign string expr
  | FunctionDef string

fun target :: "stmt \<Rightarrow> string" where
  "target (Assign x e) = x"
| "target (FunctionDef f) = f"

fun exec_stmt :: "namespace \<Rightarrow> stmt \<Rightarrow> error + namespace" where
  "exec_stmt ns (Assign x e) =
     (case eval ns e of Inl err \<Rightarrow> Inl err | Inr v \<Rightarrow> Inr (ns(x \<mapsto> v)))"
| "exec_stmt ns (FunctionDef f) = Inr (ns(f \<mapsto> PFunction f))"

fun exec_module :: "stmt list \<Rightarrow> namespace \<Rightarrow> error + namespace" where
  "exec_module [] ns = Inr ns"
| "exec_module (s # ss) ns =
     (case exec_stmt ns s of Inl err \<Rightarrow> Inl err | Inr ns' \<Rightarrow> exec_module ss ns')"

subsection \<open>The file\<close>

text \<open>The backslash of the raw string literal on line 79.\<close>

definition backslash :: char where
  "backslash = CHR 0x5C"

definition conf_py :: "stmt list" where
  "conf_py =
   [ Assign ''project'' (EStr ''Lankir''),
     Assign ''copyright'' (EStr ''2025, Lankir Contributors''),
     Assign ''author'' (EStr ''Lankir Contributors''),
     Assign ''version'' (EStr ''0.1''),
     Assign ''release'' (EStr ''0.1.1''),
     Assign ''extensions'' (EList
       [ EStr ''sphinx.ext.autodoc'',
         EStr ''sphinx.ext.viewcode'',
         EStr ''sphinx.ext.napoleon'',
         EStr ''sphinx.ext.intersphinx'',
         EStr ''sphinx_copybutton'',
         EStr ''sphinx_design'',
         EStr ''myst_parser'' ]),
     Assign ''templates_path'' (EList [EStr ''_templates'']),
     Assign ''exclude_patterns'' (EList
       [EStr ''_build'', EStr ''Thumbs.db'', EStr ''.DS_Store'', EStr ''README.md'']),
     Assign ''html_theme'' (EStr ''sphinx_rtd_theme''),
     Assign ''html_static_path'' (EList [EStr ''_static'']),
     Assign ''html_logo'' (EStr ''_static/logo.png''),
     Assign ''html_favicon'' (EStr ''_static/favicon.ico''),
     Assign ''html_title'' (EStr ''Lankir Documentation''),
     Assign ''html_theme_options'' (EDict
       [ (''logo_only'', EFalse),
         (''display_version'', ETrue),
         (''prev_next_buttons_location'', EStr ''bottom''),
         (''style_external_links'', ETrue),
         (''collapse_navigation'', EFalse),
         (''sticky_navigation'', ETrue),
         (''navigation_depth'', ENum 4),
         (''includehidden'', ETrue),
         (''titles_only'', EFalse) ]),
     Assign ''html_context'' (EDict
       [ (''display_github'', ETrue),
         (''github_user'', EStr ''Matbe34''),
         (''github_repo'', EStr ''lankir''),
         (''github_version'', EStr ''main''),
         (''conf_py_path'', EStr ''/docs/'') ]),
     Assign ''myst_enable_extensions'' (EList
       [ EStr ''colon_fence'',
         EStr ''deflist'',
         EStr ''tasklist'',
         EStr ''fieldlist'',
         EStr ''attrs_inline'',
         EStr ''attrs_block'' ]),
     Assign ''myst_heading_anchors'' (ENum 3),
     Assign ''intersphinx_mapping'' (EDict
       [ (''python'', ETuple [EStr ''https://docs.python.org/3'', ENone]) ]),
     Assign ''source_suffix'' (EDict
       [ (''.rst'', EStr ''restructuredtext''),
         (''.md'', EStr ''markdown'') ]),
     Assign ''pygments_style'' (EStr ''monokai''),
     Assign ''pygments_dark_style'' (EStr ''monokai''),
     Assign ''copybutton_prompt_text'' (EStr
       (''>>> |'' @ [backslash] @ ''.'' @ [backslash] @ ''.'' @ [backslash] @ ''. |''
          @ [backslash] @ ''$ |> '')),
     Assign ''copybutton_prompt_is_regexp'' ETrue,
     FunctionDef ''setup'' ]"

text \<open>What the documentation tool reads for an option after executing the file in the
  namespace \<open>ns0\<close>; nothing when execution fails or the name is unbound.\<close>

definition conf_value :: "namespace \<Rightarrow> string \<Rightarrow> pyval option" where
  "conf_value ns0 k = (case exec_module conf_py ns0 of Inl err \<Rightarrow> None | Inr ns \<Rightarrow> ns k)"

text \<open>The names the file assigns, in the order of the file; \<open>setup\<close> is bound by
  \<open>def\<close> and is a hook, not a field.\<close>

fun is_assign :: "stmt \<Rightarrow> bool" where
  "is_assign (Assign x e) = True"
| "is_assign (FunctionDef f) = False"

definition config_fields :: "string list" where
  "config_fields = map target (filter is_assign conf_py)"

subsection \<open>The hook \<open>setup(app)\<close>\<close>

text \<open>
  The app object belongs to the documentation tool. The hook sees it as an object with
  attributes, looked up by name; an attribute is a bound method, which takes the argument
  list, may raise (the left injection carries the exception) and may change the object's
  state, or it is plain data, which cannot be called.
\<close>

datatype 's attr =
    Method "pyval list \<Rightarrow> 's \<Rightarrow> string + 's"
  | Data pyval

record 's app =
  attributes :: "string \<rightharpoonup> 's attr"
  app_state :: 's

text \<open>
  \<open>def setup(app): app.add_css_file('custom.css')\<close>. The function runs with the module's
  globals and the argument; it returns \<open>None\<close>. The result is the returned value, the
  globals and the app object after the call. (\<open>setup\<close> is a keyword of Isabelle, hence the
  suffix.)
\<close>

definition setup_hook :: "namespace \<Rightarrow> 's app \<Rightarrow> error + (pyval \<times> namespace \<times> 's app)" where
  "setup_hook globals app =
     (case attributes app ''add_css_file'' of
        None \<Rightarrow> Inl (AttributeError ''add_css_file'')
      | Some (Data v) \<Rightarrow> Inl (TypeError ''add_css_file'')
      | Some (Method m) \<Rightarrow>
          (case m [PStr ''custom.css''] (app_state app) of
             Inl exn \<Rightarrow> Inl (Propagated exn)
           | Inr s \<Rightarrow> Inr (PNone, globals, app\<lparr>app_state := s\<rparr>)))"

text \<open>
  Modelled from the spec: the build app object of the documentation tool, whose code is
  not part of the repository. The spec says that the hook "registers one additional
  stylesheet asset with the build app object": the app keeps the stylesheets registered so
  far, in order, and \<open>add_css_file\<close> called with one file name appends it. Whatever else the
  app holds is the extension part of the record.
\<close>

record registry =
  css_files :: "string list"

definition add_css_file :: "pyval list \<Rightarrow> 'a registry_scheme \<Rightarrow> string + 'a registry_scheme" where
  "add_css_file args r =
     (case args of
        [PStr filename] \<Rightarrow> Inr (r\<lparr>css_files := css_files r @ [filename]\<rparr>)
      | _ \<Rightarrow> Inl ''TypeError'')"

definition build_app :: "'a registry_scheme \<Rightarrow> 'a registry_scheme app" where
  "build_app r = \<lparr>attributes = [''add_css_file'' \<mapsto> Method add_css_file], app_state = r\<rparr>"

subsection \<open>The prompt pattern as a regular expression\<close>

text \<open>
  \<open>copybutton_prompt_is_regexp = True\<close> makes the copy-button plugin read
  \<open>copybutton_prompt_text\<close> as a regular expression. The pattern of the file uses three
  constructs, which mean the same in every common dialect: a literal character, a
  backslash before a punctuation character (that character, literally) and the top-level
  alternation \<open>|\<close>. \<open>regex_alts\<close> reads a pattern of this fragment as its list of
  alternatives and gives \<open>None\<close> for any pattern outside the fragment.
\<close>

definition metachars :: "char list" where
  "metachars = ''.^$*+?()[]{}|'' @ [backslash]"

fun add_char :: "char \<Rightarrow> string list \<Rightarrow> string list" where
  "add_char c [] = [[c]]"
| "add_char c (a # as) = (c # a) # as"

fun regex_alts :: "string \<Rightarrow> string list option" where
  "regex_alts [] = Some [[]]"
| "regex_alts (c # cs) =
     (if c = CHR ''|'' then map_option (Cons []) (regex_alts cs)
      else if c = backslash then
        (case cs of
           [] \<Rightarrow> None
         | d # ds \<Rightarrow>
             if d \<in> set metachars then map_option (add_char d) (regex_alts ds) else None)
      else if c \<in> set metachars then None
      else map_option (add_char c) (regex_alts cs))"

text \<open>The pattern matches the string when one of its alternatives is the string.\<close>

definition regex_matches :: "string \<Rightarrow> string \<Rightarrow> bool" where
  "regex_matches p s = (case regex_alts p of None \<Rightarrow> False | Some alts \<Rightarrow> List.member alts s)"

subsection \<open>Expressions that read no name\<close>

fun closed :: "expr \<Rightarrow> bool"
  and closed_list :: "expr list \<Rightarrow> bool"
  and closed_items :: "(string \<times> expr) list \<Rightarrow> bool"
where
  "closed (EStr s) = True"
| "closed (ENum n) = True"
| "closed ETrue = True"
| "closed EFalse = True"
| "closed ENone = True"
| "closed (EName x) = False"
| "closed (EList es) = closed_list es"
| "closed (ETuple es) = closed_list es"
| "closed (EDict kes) = closed_items kes"
| "closed_list [] = True"
| "closed_list (e # es) = (closed e \<and> closed_list es)"
| "closed_items [] = True"
| "closed_items ((k, e) # kes) = (closed e \<and> closed_items kes)"

fun static :: "stmt \<Rightarrow> bool" where
  "static (Assign x e) = closed e"
| "static (FunctionDef f) = True"

subsection \<open>Shapes of values\<close>

fun is_str :: "pyval \<Rightarrow> bool" where
  "is_str (PStr s) = True"
| "is_str v = False"

fun is_list :: "pyval option \<Rightarrow> bool" where
  "is_list (Some (PList vs)) = True"
| "is_list v = False"

section \<open>Properties\<close>

subsection \<open>Modules that read no name\<close>

text \<open>
  An expression without a name read has the same value in every namespace and cannot raise;
  a module of such assignments and of function definitions adds a fixed set of bindings to
  whatever namespace it is executed in.
\<close>

lemma closed_eval_indep:
  "closed e \<Longrightarrow> eval ns e = eval ns' e"
  "closed_list es \<Longrightarrow> eval_list ns es = eval_list ns' es"
  "closed_items kes \<Longrightarrow> eval_items ns kes d = eval_items ns' kes d"
  by (induction e and es and kes arbitrary: and and d rule: closed_closed_list_closed_items.induct)
    (simp_all split: sum.splits)

lemma closed_eval_ok:
  "closed e \<Longrightarrow> \<exists>v. eval ns e = Inr v"
  "closed_list es \<Longrightarrow> \<exists>vs. eval_list ns es = Inr vs"
  "closed_items kes \<Longrightarrow> \<exists>d'. eval_items ns kes d = Inr d'"
proof (induction e and es and kes arbitrary: and and d rule: closed_closed_list_closed_items.induct)
  case (11 e es)
  then obtain v vs where "eval ns e = Inr v" "eval_list ns es = Inr vs"
    by auto
  then show ?case by simp
next
  case (13 k e kes)
  then obtain v where v: "eval ns e = Inr v"
    by auto
  from 13 obtain d' where "eval_items ns kes (dict_set d k v) = Inr d'"
    by auto
  with v show ?case by simp
next
  case (9 kes)
  then obtain d' where "eval_items ns kes [] = Inr d'"
    by auto
  then show ?case by simp
qed auto

lemma closed_value:
  assumes "closed e"
  shows "\<exists>v. \<forall>ns. eval ns e = Inr v"
proof -
  from assms obtain v where "eval Map.empty e = Inr v"
    using closed_eval_ok(1) by blast
  with assms have "\<forall>ns. eval ns e = Inr v"
    using closed_eval_indep(1) by metis
  then show ?thesis ..
qed

lemma static_exec_stmt:
  assumes "static s"
  shows "\<exists>v. \<forall>ns. exec_stmt ns s = Inr (ns(target s \<mapsto> v))"
proof (cases s)
  case (Assign x e)
  with assms obtain v where "\<forall>ns. eval ns e = Inr v"
    using closed_value by auto
  with Assign have "\<forall>ns. exec_stmt ns s = Inr (ns(target s \<mapsto> v))"
    by simp
  then show ?thesis ..
next
  case (FunctionDef f)
  then have "\<forall>ns. exec_stmt ns s = Inr (ns(target s \<mapsto> PFunction f))"
    by simp
  then show ?thesis ..
qed

lemma static_exec_module:
  "list_all static ss \<Longrightarrow>
     \<exists>b. dom b = set (map target ss) \<and> (\<forall>ns. exec_module ss ns = Inr (ns ++ b))"
proof (induction ss)
  case Nil
  have "dom (Map.empty :: namespace) = set (map target []) \<and>
        (\<forall>ns. exec_module [] ns = Inr (ns ++ Map.empty))"
    by simp
  then show ?case by blast
next
  case (Cons s ss)
  then obtain b where b: "dom b = set (map target ss)" "\<And>ns. exec_module ss ns = Inr (ns ++ b)"
    by auto
  from Cons.prems obtain v where v: "\<And>ns. exec_stmt ns s = Inr (ns(target s \<mapsto> v))"
    using static_exec_stmt by auto
  let ?b = "[target s \<mapsto> v] ++ b"
  have "dom ?b = set (map target (s # ss))"
    using b(1) by auto
  moreover have "exec_module (s # ss) ns = Inr (ns ++ ?b)" for ns
  proof -
    have "ns(target s \<mapsto> v) ++ b = ns ++ ?b"
      by simp
    then show ?thesis
      by (simp add: v b(2))
  qed
  ultimately show ?case by blast
qed

lemma conf_py_static: "list_all static conf_py"
  by code_simp

lemma conf_py_exec:
  "\<exists>b. dom b = set (map target conf_py) \<and> (\<forall>ns. exec_module conf_py ns = Inr (ns ++ b))"
  using conf_py_static by (rule static_exec_module)

lemma config_fields_targets: "set config_fields \<subseteq> set (map target conf_py)"
  by (auto simp: config_fields_def)

subsection \<open>Loading the file\<close>

text \<open>
  C2. Loading the file twice yields identical values for every configuration field. Executing
  the file once more in the namespace the first execution left gives that same namespace,
  and executions in any two starting namespaces \<open>ns0\<close> and \<open>ns0'\<close> agree on the value of
  every field: the values depend on no input.
\<close>

theorem load_twice_identical:
  "(\<exists>ns1. exec_module conf_py ns0 = Inr ns1 \<and> exec_module conf_py ns1 = Inr ns1)
   \<and> map (conf_value ns0) config_fields = map (conf_value ns0') config_fields"
proof -
  obtain b where d: "dom b = set (map target conf_py)"
    and e: "\<And>ns. exec_module conf_py ns = Inr (ns ++ b)"
    using conf_py_exec by blast
  have "(ns0 ++ b) ++ b = ns0 ++ b"
    by (rule ext) (simp add: map_add_def split: option.splits)
  then have "exec_module conf_py (ns0 ++ b) = Inr (ns0 ++ b)"
    by (simp only: e)
  then have first: "\<exists>ns1. exec_module conf_py ns0 = Inr ns1 \<and> exec_module conf_py ns1 = Inr ns1"
    using e by blast
  have "conf_value ns0 k = conf_value ns0' k" if "k \<in> set config_fields" for k
  proof -
    from that have "k \<in> dom b"
      using config_fields_targets d by blast
    then show ?thesis
      by (auto simp: conf_value_def e map_add_def split: option.splits)
  qed
  then have "map (conf_value ns0) config_fields = map (conf_value ns0') config_fields"
    by simp
  with first show ?thesis ..
qed

subsection \<open>The hook\<close>

text \<open>
  When the app object provides the method, the hook is one call of it with the one argument
  \<open>'custom.css'\<close>; on the build app this appends the file to the registered stylesheets.
  The globals come back as they went in.
\<close>

lemma setup_hook_method:
  assumes "attributes app ''add_css_file'' = Some (Method m)"
  shows "setup_hook g app =
     (case m [PStr ''custom.css''] (app_state app) of
        Inl exn \<Rightarrow> Inl (Propagated exn)
      | Inr s \<Rightarrow> Inr (PNone, g, app\<lparr>app_state := s\<rparr>))"
  using assms by (simp add: setup_hook_def)

lemma setup_hook_build_app:
  "setup_hook g (build_app r) =
     Inr (PNone, g, build_app (r\<lparr>css_files := css_files r @ [''custom.css'']\<rparr>))"
  by (simp add: setup_hook_def build_app_def add_css_file_def)

lemma setup_hook_globals:
  assumes "setup_hook g app = Inr (v, g', app')"
  shows "g' = g"
  using assms
  by (auto simp: setup_hook_def split: option.splits attr.splits sum.splits)

text \<open>
  C1. For every build app object, \<open>setup(app)\<close> registers exactly one more stylesheet,
  the file \<open>custom.css\<close>, and nothing else changes: the other stylesheets, the rest of the
  app, its attributes and the globals are as before, and the hook returns \<open>None\<close>. A second
  invocation registers the same file again. For any app object that provides the method
  \<open>add_css_file\<close>, the outcome of the hook is the outcome of the single call
  \<open>add_css_file('custom.css')\<close>.
\<close>

theorem setup_registers_custom_css:
  "setup_hook g (build_app r) =
     Inr (PNone, g, build_app (r\<lparr>css_files := css_files r @ [''custom.css'']\<rparr>))
   \<and> (case setup_hook g (build_app r) of
         Inl err \<Rightarrow> False
       | Inr (v, g', app') \<Rightarrow>
           setup_hook g' app' =
             Inr (PNone, g,
               build_app (r\<lparr>css_files := css_files r @ [''custom.css'', ''custom.css'']\<rparr>)))
   \<and> (attributes app ''add_css_file'' = Some (Method m) \<longrightarrow>
        setup_hook g app =
          (case m [PStr ''custom.css''] (app_state app) of
             Inl exn \<Rightarrow> Inl (Propagated exn)
           | Inr s \<Rightarrow> Inr (PNone, g, app\<lparr>app_state := s\<rparr>)))"
proof (intro conjI impI)
  show "setup_hook g (build_app r) =
     Inr (PNone, g, build_app (r\<lparr>css_files := css_files r @ [''custom.css'']\<rparr>))"
    by (rule setup_hook_build_app)
next
  show "case setup_hook g (build_app r) of
         Inl err \<Rightarrow> False
       | Inr (v, g', app') \<Rightarrow>
           setup_hook g' app' =
             Inr (PNone, g,
               build_app (r\<lparr>css_files := css_files r @ [''custom.css'', ''custom.css'']\<rparr>))"
    by (simp add: setup_hook_build_app)
next
  assume "attributes app ''add_css_file'' = Some (Method m)"
  then show "setup_hook g app =
          (case m [PStr ''custom.css''] (app_state app) of
             Inl exn \<Rightarrow> Inl (Propagated exn)
           | Inr s \<Rightarrow> Inr (PNone, g, app\<lparr>app_state := s\<rparr>))"
    by (rule setup_hook_method)
qed

theorem setup_registers_custom_css_witness:
  "setup_hook Map.empty (build_app \<lparr>css_files = [''basic.css'']\<rparr>) =
     Inr (PNone, Map.empty, build_app \<lparr>css_files = [''basic.css'', ''custom.css'']\<rparr>)
   \<and> attributes (build_app \<lparr>css_files = [''basic.css'']\<rparr>) ''add_css_file''
       = Some (Method add_css_file)
   \<and> add_css_file [PStr ''custom.css''] \<lparr>css_files = [''basic.css'']\<rparr> =
       Inr \<lparr>css_files = [''basic.css'', ''custom.css'']\<rparr>"
proof -
  let ?r = "\<lparr>css_files = [''basic.css'']\<rparr>"
  have a: "attributes (build_app ?r) ''add_css_file'' = Some (Method add_css_file)"
    by (simp add: build_app_def)
  have m: "add_css_file [PStr ''custom.css''] ?r = Inr \<lparr>css_files = [''basic.css'', ''custom.css'']\<rparr>"
    by (simp add: add_css_file_def)
  from setup_registers_custom_css [of Map.empty ?r "build_app ?r" add_css_file] a
  have "setup_hook Map.empty (build_app ?r) =
     (case add_css_file [PStr ''custom.css''] (app_state (build_app ?r)) of
        Inl exn \<Rightarrow> Inl (Propagated exn)
      | Inr s \<Rightarrow> Inr (PNone, Map.empty, (build_app ?r)\<lparr>app_state := s\<rparr>))"
    by blast
  then have "setup_hook Map.empty (build_app ?r) =
     Inr (PNone, Map.empty, build_app \<lparr>css_files = [''basic.css'', ''custom.css'']\<rparr>)"
    by (simp add: build_app_def m)
  with a m show ?thesis by blast
qed



text \<open>
  C3. Every configuration field is assigned exactly once: each of the 23 field names is
  the target of exactly one statement of the file, so the value a field has after loading
  is the value of the expression of its one assignment. The hook does not change the
  globals: when \<open>setup(app)\<close> returns, every field has the value it had before the call.
\<close>

theorem fields_assigned_once:
  "config_fields =
     [''project'', ''copyright'', ''author'', ''version'', ''release'', ''extensions'',
      ''templates_path'', ''exclude_patterns'', ''html_theme'', ''html_static_path'',
      ''html_logo'', ''html_favicon'', ''html_title'', ''html_theme_options'',
      ''html_context'', ''myst_enable_extensions'', ''myst_heading_anchors'',
      ''intersphinx_mapping'', ''source_suffix'', ''pygments_style'', ''pygments_dark_style'',
      ''copybutton_prompt_text'', ''copybutton_prompt_is_regexp'']
   \<and> list_all (\<lambda>k. count_list (map target conf_py) k = 1) config_fields
   \<and> list_all (\<lambda>s. case s of
                      Assign x e \<Rightarrow>
                        (case eval Map.empty e of
                           Inl err \<Rightarrow> False
                         | Inr v \<Rightarrow> conf_value ns0 x = Some v)
                    | FunctionDef f \<Rightarrow> True) conf_py
   \<and> (setup_hook g app = Inr (v, g', app') \<longrightarrow> g' = g)"
proof (intro conjI impI)
  show "config_fields =
     [''project'', ''copyright'', ''author'', ''version'', ''release'', ''extensions'',
      ''templates_path'', ''exclude_patterns'', ''html_theme'', ''html_static_path'',
      ''html_logo'', ''html_favicon'', ''html_title'', ''html_theme_options'',
      ''html_context'', ''myst_enable_extensions'', ''myst_heading_anchors'',
      ''intersphinx_mapping'', ''source_suffix'', ''pygments_style'', ''pygments_dark_style'',
      ''copybutton_prompt_text'', ''copybutton_prompt_is_regexp'']"
    by code_simp
next
  show "list_all (\<lambda>k. count_list (map target conf_py) k = 1) config_fields"
    by code_simp
next
  show "list_all (\<lambda>s. case s of
                      Assign x e \<Rightarrow>
                        (case eval Map.empty e of
                           Inl err \<Rightarrow> False
                         | Inr v \<Rightarrow> conf_value ns0 x = Some v)
                    | FunctionDef f \<Rightarrow> True) conf_py"
    by code_simp
next
  assume "setup_hook g app = Inr (v, g', app')"
  then show "g' = g"
    by (rule setup_hook_globals)
qed

theorem fields_assigned_once_witness:
  "list_all (\<lambda>k. count_list (map target conf_py) k = 1) config_fields
   \<and> setup_hook [''version'' \<mapsto> PStr ''0.1''] (build_app \<lparr>css_files = []\<rparr>) =
       Inr (PNone, [''version'' \<mapsto> PStr ''0.1''], build_app \<lparr>css_files = [''custom.css'']\<rparr>)"
proof -
  let ?g = "[''version'' \<mapsto> PStr ''0.1'']"
  have run: "setup_hook ?g (build_app \<lparr>css_files = []\<rparr>) =
       Inr (PNone, ?g, build_app \<lparr>css_files = [''custom.css'']\<rparr>)"
    using setup_hook_build_app [of ?g "\<lparr>css_files = []\<rparr>"] by simp
  from fields_assigned_once
    [of Map.empty ?g "build_app \<lparr>css_files = []\<rparr>" PNone ?g
        "build_app \<lparr>css_files = [''custom.css'']\<rparr>"]
  have "list_all (\<lambda>k. count_list (map target conf_py) k = 1) config_fields"
    by blast
  with run show ?thesis by simp
qed

subsection \<open>Field values\<close>

text \<open>
  C5. Whatever the namespace the file is executed in, the field \<open>extensions\<close> is the list
  of the seven plugin names \<open>sphinx.ext.autodoc\<close>, \<open>sphinx.ext.viewcode\<close>,
  \<open>sphinx.ext.napoleon\<close>, \<open>sphinx.ext.intersphinx\<close>, \<open>sphinx_copybutton\<close>,
  \<open>sphinx_design\<close>, \<open>myst_parser\<close>, in that order.
\<close>

theorem extensions_value:
  "conf_value ns0 ''extensions'' = Some (PList
     [ PStr ''sphinx.ext.autodoc'',
       PStr ''sphinx.ext.viewcode'',
       PStr ''sphinx.ext.napoleon'',
       PStr ''sphinx.ext.intersphinx'',
       PStr ''sphinx_copybutton'',
       PStr ''sphinx_design'',
       PStr ''myst_parser'' ])"
  by code_simp

text \<open>
  C6. The field \<open>source_suffix\<close> is the dictionary with exactly the two keys \<open>.rst\<close>,
  mapped to \<open>restructuredtext\<close>, and \<open>.md\<close>, mapped to \<open>markdown\<close>.
\<close>

theorem source_suffix_value:
  "conf_value ns0 ''source_suffix'' =
     Some (PDict [(''.rst'', PStr ''restructuredtext''), (''.md'', PStr ''markdown'')])"
  by code_simp

text \<open>
  C7. The field \<open>intersphinx_mapping\<close> is the dictionary with the single key
  \<open>python\<close>, mapped to the pair of \<open>https://docs.python.org/3\<close> and \<open>None\<close>.
\<close>

theorem intersphinx_mapping_value:
  "conf_value ns0 ''intersphinx_mapping'' =
     Some (PDict [(''python'', PTuple [PStr ''https://docs.python.org/3'', PNone])])"
  by code_simp

text \<open>
  C8. The field \<open>version\<close> is the string \<open>0.1\<close>, the field \<open>release\<close> is the string
  \<open>0.1.1\<close>, and the version is a proper prefix of the release: the release is the version
  followed by the patch component \<open>.1\<close>.
\<close>

theorem version_prefix_of_release:
  "\<exists>v r. conf_value ns0 ''version'' = Some (PStr v) \<and> conf_value ns0 ''release'' = Some (PStr r)
     \<and> v = ''0.1'' \<and> r = ''0.1.1'' \<and> strict_prefix v r \<and> r = v @ ''.1''"
proof -
  have v: "conf_value ns0 ''version'' = Some (PStr ''0.1'')"
    by code_simp
  have r: "conf_value ns0 ''release'' = Some (PStr ''0.1.1'')"
    by code_simp
  have "strict_prefix ''0.1'' ''0.1.1''"
    by simp
  with v r show ?thesis
    by simp
qed

text \<open>
  C9. The file defines the two copy-button options: \<open>copybutton_prompt_is_regexp\<close> is
  \<open>True\<close>, and \<open>copybutton_prompt_text\<close> is the pattern of line 79, whose alternatives
  are the four prompt prefixes \<open>>>> \<close>, \<open>... \<close>, \<open>$ \<close> and \<open>> \<close>; the pattern
  matches each of them.
\<close>

theorem copybutton_prompt:
  "conf_value ns0 ''copybutton_prompt_is_regexp'' = Some (PBool True)
   \<and> conf_value ns0 ''copybutton_prompt_text'' =
       Some (PStr (''>>> |'' @ [CHR 0x5C] @ ''.'' @ [CHR 0x5C] @ ''.'' @ [CHR 0x5C] @ ''. |''
          @ [CHR 0x5C] @ ''$ |> ''))
   \<and> (case conf_value ns0 ''copybutton_prompt_text'' of
         Some (PStr p) \<Rightarrow>
           regex_alts p = Some [''>>> '', ''... '', ''$ '', ''> '']
           \<and> regex_matches p ''>>> '' \<and> regex_matches p ''... ''
           \<and> regex_matches p ''$ '' \<and> regex_matches p ''> ''
       | _ \<Rightarrow> False)"
  by code_simp

text \<open>
  C10. The list-valued fields of the file are \<open>extensions\<close>, \<open>templates_path\<close>,
  \<open>exclude_patterns\<close>, \<open>html_static_path\<close> and \<open>myst_enable_extensions\<close>; each of
  them holds strings only and no string twice. \<open>myst_parser\<close> is one of the extensions,
  and \<open>source_suffix\<close> gives the dialect \<open>markdown\<close> for \<open>.md\<close>.
\<close>

theorem list_fields:
  "filter (\<lambda>k. is_list (conf_value ns0 k)) config_fields =
     [''extensions'', ''templates_path'', ''exclude_patterns'', ''html_static_path'',
      ''myst_enable_extensions'']
   \<and> list_all (\<lambda>k. case conf_value ns0 k of
                      Some (PList vs) \<Rightarrow> list_all is_str vs \<and> distinct vs
                    | _ \<Rightarrow> False)
       [''extensions'', ''templates_path'', ''exclude_patterns'', ''html_static_path'',
        ''myst_enable_extensions'']
   \<and> (case conf_value ns0 ''extensions'' of
         Some (PList exts) \<Rightarrow> List.member exts (PStr ''myst_parser'')
       | _ \<Rightarrow> False)
   \<and> (case conf_value ns0 ''source_suffix'' of
         Some (PDict d) \<Rightarrow> map_of d ''.md'' = Some (PStr ''markdown'')
       | _ \<Rightarrow> False)"
  by code_simp

end
